theory Spec2Isabelle
  imports Complex_Main
begin

section \<open>Exceptions and JSON values\<close>

text \<open>
  The Python exceptions that the modelled code can raise, as values. A function that can
  raise returns \<open>exn + 'a\<close> (\<open>Inl\<close> the exception) when it has no effect on the state, and
  a pair \<open>exn option \<times> state\<close> when it has: the state component is the state at the moment
  the exception left the function.
\<close>

datatype exn =
    KeyError string
  | TypeError
  | IndexError
  | ValueError
  | JSONDecodeError
  | UnicodeDecodeError
  | HTTPError
  | DecodeError
  | PersistenceError
  | AuthenticationError
  | AMQPError
  | OtherError
  | RuntimeError

text \<open>
  What \<open>json.loads\<close> returns: \<open>None\<close>, a bool, a number, a \<open>str\<close>, a \<open>list\<close> or a \<open>dict\<close>.
  A \<open>dict\<close> is an association list read with \<open>map_of\<close>.
\<close>

datatype json =
    JNull
  | JBool bool
  | JNum rat
  | JStr string
  | JArr "json list"
  | JObj "(string \<times> json) list"

text \<open>
  A Python \<open>str\<close> is the list of its characters and a \<open>bytes\<close> the list of its bytes,
  both of type \<open>string\<close>; \<open>length\<close> is \<open>len\<close>.

  \<open>p in s\<close> for two Python strings: \<open>p\<close> occurs in \<open>s\<close> as a contiguous block.
\<close>

fun substring_of :: "string \<Rightarrow> string \<Rightarrow> bool" where
  "substring_of p [] = (p = [])"
| "substring_of p (c # cs) = (take (length p) (c # cs) = p \<or> substring_of p cs)"

text \<open>
  Whether a JSON value contains the string \<open>k\<close>: as an element of a list, as a key of a
  dict, as a substring of a string. Nothing else contains anything.
\<close>

fun json_contains :: "json \<Rightarrow> string \<Rightarrow> bool" where
  "json_contains (JArr xs) k = (JStr k \<in> set xs)"
| "json_contains (JObj kvs) k = (k \<in> set (map fst kvs))"
| "json_contains (JStr s) k = substring_of k s"
| "json_contains _ k = False"

text \<open>Python's \<open>k in c\<close> for a string \<open>k\<close>: a \<open>TypeError\<close> when \<open>c\<close> is not a container.\<close>

fun py_in :: "string \<Rightarrow> json \<Rightarrow> exn + bool" where
  "py_in k JNull = Inl TypeError"
| "py_in k (JBool b) = Inl TypeError"
| "py_in k (JNum n) = Inl TypeError"
| "py_in k c = Inr (json_contains c k)"

text \<open>Python's \<open>c[k]\<close> for a string \<open>k\<close>: only a dict can be subscripted with a string.\<close>

fun py_getitem :: "json \<Rightarrow> string \<Rightarrow> exn + json" where
  "py_getitem (JObj kvs) k = (case map_of kvs k of None \<Rightarrow> Inl (KeyError k) | Some v \<Rightarrow> Inr v)"
| "py_getitem _ k = Inl TypeError"

text \<open>\<open>len(c)\<close> and the items of \<open>for x in c\<close>.\<close>

fun py_len :: "json \<Rightarrow> exn + nat" where
  "py_len (JArr xs) = Inr (length xs)"
| "py_len (JObj kvs) = Inr (length kvs)"
| "py_len (JStr s) = Inr (length s)"
| "py_len _ = Inl TypeError"

fun py_iter :: "json \<Rightarrow> exn + json list" where
  "py_iter (JArr xs) = Inr xs"
| "py_iter (JObj kvs) = Inr (map (\<lambda>kv. JStr (fst kv)) kvs)"
| "py_iter (JStr s) = Inr (map (\<lambda>c. JStr [c]) s)"
| "py_iter _ = Inl TypeError"

text \<open>\<open>s.split(sep)\<close> for a separator of one character: every occurrence splits.\<close>

fun split_on :: "char \<Rightarrow> string \<Rightarrow> string list" where
  "split_on sep [] = [[]]"
| "split_on sep (c # cs) =
     (if c = sep then [] # split_on sep cs
      else (case split_on sep cs of
              [] \<Rightarrow> [[c]]
            | w # ws \<Rightarrow> (c # w) # ws))"

text \<open>
  A \<open>for\<close> loop whose body can raise: the first exception ends the loop and leaves it
  with the state reached so far.
\<close>

fun for_each :: "('a \<Rightarrow> 's \<Rightarrow> exn option \<times> 's) \<Rightarrow> 'a list \<Rightarrow> 's \<Rightarrow> exn option \<times> 's" where
  "for_each body [] s = (None, s)"
| "for_each body (x # xs) s =
     (case body x s of
        (Some e, s') \<Rightarrow> (Some e, s')
      | (None, s') \<Rightarrow> for_each body xs s')"

section \<open>The collaborators\<close>

text \<open>
  One parsed archive record: its \<open>rec_type\<close> and what \<open>content_stream().read()\<close> gives.
\<close>

record warc_record =
  rec_type :: string
  content_read :: "exn + string"

text \<open>The document a worker hands to the object store (\<open>worker.py\<close>, lines 60 to 66).\<close>

record doc =
  url :: json
  timestamp :: json
  content :: string
  tokens :: "int list"
  doc_metadata :: json

text \<open>The dict a batcher appends to \<open>found_urls\<close> (\<open>batcher.py\<close>, line 71).\<close>

record found_url =
  surt_url :: string
  found_timestamp :: string
  metadata :: json

text \<open>
  The libraries and services the code calls, as functions of their arguments:
  \<^item> \<open>download_and_unzip\<close>: \<open>Downloader.download_and_unzip(url, start, length)\<close>;
  \<^item> \<open>decode_utf8\<close>: \<open>bytes.decode("utf-8")\<close>;
  \<^item> \<open>py_int\<close>: the builtin \<open>int\<close> on a string or a JSON value;
  \<^item> \<open>json_loads\<close>: \<open>json.loads\<close>;
  \<^item> \<open>channel_publish\<close>: \<open>MessageQueueChannel.basic_publish\<close> of the batcher's channel, given
    the batches it has accepted so far and the batch whose \<open>json.dumps\<close> is the body;
  \<^item> \<open>warc_records\<close>: what iterating \<open>WARCIterator(io.BytesIO(data))\<close> yields, an \<open>Inl\<close>
    where the iterator raises;
  \<^item> \<open>trafilatura_extract\<close>: \<open>trafilatura.extract\<close>, which returns \<open>None\<close> or a text;
  \<^item> \<open>encode\<close>: \<open>tokenizer.encode\<close>;
  \<^item> \<open>store_save\<close>: \<open>ObjectStore.save\<close> as the worker sees it, \<open>None\<close> when it returns;
  \<^item> \<open>basic_ack\<close>: \<open>ch.basic_ack(delivery_tag=...)\<close>.
\<close>

record env =
  download_and_unzip :: "json \<Rightarrow> int \<Rightarrow> int \<Rightarrow> exn + string"
  decode_utf8 :: "string \<Rightarrow> exn + string"
  py_int :: "json \<Rightarrow> exn + int"
  json_loads :: "string \<Rightarrow> exn + json"
  channel_publish :: "found_url list list \<Rightarrow> found_url list \<Rightarrow> exn option"
  warc_records :: "string \<Rightarrow> (exn + warc_record) list"
  trafilatura_extract :: "string \<Rightarrow> exn + string option"
  encode :: "string \<Rightarrow> exn + int list"
  store_save :: "doc \<Rightarrow> exn option"
  basic_ack :: "nat \<Rightarrow> exn option"

section \<open>rabbitmq.py\<close>

definition MAX_RETRIES :: nat where
  "MAX_RETRIES = 3"

definition RETRY_DELAY :: nat where
  "RETRY_DELAY = 5"

text \<open>
  What one call of the underlying \<open>self.channel.basic_publish\<close> does, by the \<open>except\<close>
  clause that catches it: it returns, or raises one of the three authentication classes
  (lines 37 to 40), or one of the connection and channel classes (lines 45 to 59), or any
  other \<open>Exception\<close> (line 66).
\<close>

datatype publish_outcome = Published | RaisesAuth | RaisesTransport | RaisesOther

text \<open>What \<open>RabbitMQChannel.basic_publish\<close> does to the outside, in order.\<close>

datatype event = Publish string | Sleep nat | Connect

text \<open>
  The broker: the outcome of the \<open>n\<close>-th underlying publish call and of the \<open>n\<close>-th
  \<open>_connect\<close> call (\<open>None\<close> when it returns), counted from 0 over the life of the channel.
\<close>

record broker =
  publish_result :: "nat \<Rightarrow> publish_outcome"
  connect_result :: "nat \<Rightarrow> exn option"

fun is_Publish :: "event \<Rightarrow> bool" where
  "is_Publish (Publish b) = True"
| "is_Publish _ = False"

definition publishes :: "event list \<Rightarrow> nat" where
  "publishes tr = length (filter is_Publish tr)"

definition sleeps :: "event list \<Rightarrow> nat" where
  "sleeps tr = length (filter (\<lambda>e. case e of Sleep d \<Rightarrow> True | _ \<Rightarrow> False) tr)"

definition connects :: "event list \<Rightarrow> nat" where
  "connects tr = length (filter (\<lambda>e. e = Connect) tr)"

text \<open>
  Lines 61 to 64 and 67 to 70, the same in both handlers: \<open>attempt += 1\<close>, the sleep and
  the reconnect. An exception of \<open>_connect\<close> leaves the handler as it is. When the handler
  completes, control reaches line 72, which is inside the \<open>while\<close> body, and raises.
\<close>

definition recover :: "broker \<Rightarrow> event list \<Rightarrow> exn option \<times> event list" where
  "recover b tr =
     (let tr1 = tr @ [Sleep RETRY_DELAY];
          tr2 = tr1 @ [Connect]
      in case connect_result b (connects tr1) of
           Some e \<Rightarrow> (Some e, tr2)
         | None \<Rightarrow> (Some RuntimeError, tr2))"

text \<open>
  The \<open>while attempt < MAX_RETRIES\<close> loop of \<open>basic_publish\<close>, entered with the given value
  of \<open>attempt\<close> and the trace so far. Every path through the body leaves the function (the
  \<open>return\<close> of line 35, the \<open>raise\<close> of line 43, the \<open>raise\<close> of line 72), so the body runs
  at most once and the definition has no recursive call. With the loop condition false the
  function falls off its end and returns \<open>None\<close>.
\<close>

definition publish_loop :: "broker \<Rightarrow> string \<Rightarrow> nat \<Rightarrow> event list \<Rightarrow> exn option \<times> event list" where
  "publish_loop b body attempt tr =
     (if attempt < MAX_RETRIES then
        (let tr1 = tr @ [Publish body]
         in case publish_result b (publishes tr) of
              Published \<Rightarrow> (None, tr1)
            | RaisesAuth \<Rightarrow> (Some AuthenticationError, tr1)
            | RaisesTransport \<Rightarrow> recover b tr1
            | RaisesOther \<Rightarrow> recover b tr1)
      else (None, tr))"

definition basic_publish :: "broker \<Rightarrow> string \<Rightarrow> event list \<Rightarrow> exn option \<times> event list" where
  "basic_publish b body tr = publish_loop b body 0 tr"

section \<open>batcher.py\<close>

definition BATCH_SIZE :: int where
  "BATCH_SIZE = 50"

record batcher_state =
  found_urls :: "found_url list"
  published :: "found_url list list"
  batch_counter :: nat
  batcher_docs_seen :: nat
  batcher_docs_filtered :: nat
  batcher_docs_sent :: nat

definition batcher_init :: batcher_state where
  "batcher_init = \<lparr>found_urls = [], published = [], batch_counter = 0,
     batcher_docs_seen = 0, batcher_docs_filtered = 0, batcher_docs_sent = 0\<rparr>"

text \<open>
  \<open>publish_batch\<close> (lines 40 to 50): publish, then count the batch. \<open>published\<close> is the log
  of the batches the channel accepted.
\<close>

definition publish_batch :: "env \<Rightarrow> found_url list \<Rightarrow> batcher_state \<Rightarrow> exn option \<times> batcher_state" where
  "publish_batch E batch st =
     (case channel_publish E (published st) batch of
        Some e \<Rightarrow> (Some e, st)
      | None \<Rightarrow> (None, st\<lparr>published := published st @ [batch],
                            batch_counter := batch_counter st + 1\<rparr>))"

text \<open>
  The condition of line 68,
  \<^verbatim>\<open>"languages" in metadata and "eng" in metadata["languages"] and metadata["status"] == "200"\<close>,
  evaluated left to right. The first component lists the keys that were subscripted, in
  the order of the subscripts.
\<close>

definition accept_reads :: "json \<Rightarrow> string list \<times> (exn + bool)" where
  "accept_reads md =
     (case py_in ''languages'' md of
        Inl e \<Rightarrow> ([], Inl e)
      | Inr False \<Rightarrow> ([], Inr False)
      | Inr True \<Rightarrow>
          (case py_getitem md ''languages'' of
             Inl e \<Rightarrow> ([''languages''], Inl e)
           | Inr langs \<Rightarrow>
               (case py_in ''eng'' langs of
                  Inl e \<Rightarrow> ([''languages''], Inl e)
                | Inr False \<Rightarrow> ([''languages''], Inr False)
                | Inr True \<Rightarrow>
                    (case py_getitem md ''status'' of
                       Inl e \<Rightarrow> ([''languages'', ''status''], Inl e)
                     | Inr s \<Rightarrow> ([''languages'', ''status''], Inr (s = JStr ''200''))))))"

definition accept :: "json \<Rightarrow> exn + bool" where
  "accept md = snd (accept_reads md)"

text \<open>Lines 69 to 72: count the row and append it; \<open>values[1]\<close> needs a second field.\<close>

definition append_found :: "string list \<Rightarrow> json \<Rightarrow> batcher_state \<Rightarrow> exn option \<times> batcher_state" where
  "append_found values md st =
     (let st1 = st\<lparr>batcher_docs_filtered := batcher_docs_filtered st + 1\<rparr>
      in if length values < 2 then (Some IndexError, st1)
         else (None, st1\<lparr>found_urls := found_urls st1 @
                 [\<lparr>surt_url = values ! 0, found_timestamp = values ! 1, metadata = md\<rparr>]\<rparr>))"

text \<open>Lines 74 to 77: publish the batch when it is full, and start a new one.\<close>

definition flush_full :: "env \<Rightarrow> int \<Rightarrow> batcher_state \<Rightarrow> exn option \<times> batcher_state" where
  "flush_full E batch_size st =
     (if int (length (found_urls st)) \<ge> batch_size then
        (case publish_batch E (found_urls st) st of
           (Some e, st1) \<Rightarrow> (Some e, st1)
         | (None, st1) \<Rightarrow>
             (None, st1\<lparr>batcher_docs_sent := batcher_docs_sent st1 + length (found_urls st1),
                        found_urls := []\<rparr>))
      else (None, st))"

text \<open>The body of the inner loop, lines 63 to 77, for one line of a chunk.\<close>

definition process_line :: "env \<Rightarrow> int \<Rightarrow> string \<Rightarrow> batcher_state \<Rightarrow> exn option \<times> batcher_state" where
  "process_line E batch_size line st =
     (if line = [] then (None, st)
      else
        (let st1 = st\<lparr>batcher_docs_seen := batcher_docs_seen st + 1\<rparr>;
             values = split_on CHR '' '' line
         in case json_loads E (concat (drop 2 values)) of
              Inl e \<Rightarrow> (Some e, st1)
            | Inr md \<Rightarrow>
                (case accept md of
                   Inl e \<Rightarrow> (Some e, st1)
                 | Inr False \<Rightarrow> flush_full E batch_size st1
                 | Inr True \<Rightarrow>
                     (case append_found values md st1 of
                        (Some e, st2) \<Rightarrow> (Some e, st2)
                      | (None, st2) \<Rightarrow> flush_full E batch_size st2))))"

text \<open>
  Lines 58 to 60: the arguments \<open>cdx_chunk[1]\<close>, \<open>int(cdx_chunk[2])\<close>, \<open>int(cdx_chunk[3])\<close>
  in this order, the download and the decoding.
\<close>

definition fetch_chunk :: "env \<Rightarrow> string list \<Rightarrow> exn + string" where
  "fetch_chunk E cdx_chunk =
     (if length cdx_chunk < 2 then Inl IndexError
      else if length cdx_chunk < 3 then Inl IndexError
      else (case py_int E (JStr (cdx_chunk ! 2)) of
              Inl e \<Rightarrow> Inl e
            | Inr start \<Rightarrow>
                if length cdx_chunk < 4 then Inl IndexError
                else (case py_int E (JStr (cdx_chunk ! 3)) of
                        Inl e \<Rightarrow> Inl e
                      | Inr len \<Rightarrow>
                          (case download_and_unzip E (JStr (cdx_chunk ! 1)) start len of
                             Inl e \<Rightarrow> Inl e
                           | Inr bytes \<Rightarrow> decode_utf8 E bytes))))"

text \<open>The body of the outer loop, lines 58 to 77, for one row of the index.\<close>

definition process_chunk :: "env \<Rightarrow> int \<Rightarrow> string list \<Rightarrow> batcher_state \<Rightarrow> exn option \<times> batcher_state" where
  "process_chunk E batch_size cdx_chunk st =
     (case fetch_chunk E cdx_chunk of
        Inl e \<Rightarrow> (Some e, st)
      | Inr data \<Rightarrow> for_each (process_line E batch_size) (split_on CHR 0x0A data) st)"

text \<open>Lines 79 to 81 and, once more, lines 83 to 85: \<open>found_urls\<close> is not emptied.\<close>

definition flush_rest :: "env \<Rightarrow> batcher_state \<Rightarrow> exn option \<times> batcher_state" where
  "flush_rest E st =
     (if found_urls st \<noteq> [] then
        (case publish_batch E (found_urls st) st of
           (Some e, st1) \<Rightarrow> (Some e, st1)
         | (None, st1) \<Rightarrow>
             (None, st1\<lparr>batcher_docs_sent := batcher_docs_sent st1 + length (found_urls st1)\<rparr>))
      else (None, st))"

text \<open>
  \<open>process_index\<close> (lines 53 to 86). \<open>index\<close> is \<open>list(index)\<close>, the rows of the index file;
  \<open>st\<close> carries the counters and the channel's log, and \<open>found_urls\<close> starts empty.
\<close>

definition process_index :: "env \<Rightarrow> string list list \<Rightarrow> int \<Rightarrow> batcher_state \<Rightarrow> exn option \<times> batcher_state" where
  "process_index E index batch_size st =
     (case for_each (process_chunk E batch_size) index (st\<lparr>found_urls := []\<rparr>) of
        (Some e, st1) \<Rightarrow> (Some e, st1)
      | (None, st1) \<Rightarrow>
          (case flush_rest E st1 of
             (Some e, st2) \<Rightarrow> (Some e, st2)
           | (None, st2) \<Rightarrow> flush_rest E st2))"

section \<open>worker.py\<close>

definition MIN_DOC_LENGTH :: nat where
  "MIN_DOC_LENGTH = 500"

definition MAX_DOC_LENGTH :: nat where
  "MAX_DOC_LENGTH = 1000000"

text \<open>\<open>Worker._is_valid_doc\<close> (lines 31 to 34); \<open>None\<close> is Python's \<open>None\<close>.\<close>

fun is_valid_doc :: "string option \<Rightarrow> bool" where
  "is_valid_doc None = False"
| "is_valid_doc (Some text) = (MIN_DOC_LENGTH \<le> length text \<and> length text \<le> MAX_DOC_LENGTH)"

record worker_state =
  docs_received :: nat
  bytes_downloaded :: nat
  docs_filtered :: nat
  docs_processed :: nat
  worker_batches :: nat
  saved :: "doc list"
  acks :: "nat list"

definition worker_init :: worker_state where
  "worker_init = \<lparr>docs_received = 0, bytes_downloaded = 0, docs_filtered = 0,
     docs_processed = 0, worker_batches = 0, saved = [], acks = []\<rparr>"

text \<open>
  Lines 44 to 48: the three arguments of the download, in the order Python evaluates them,
  and the download.
\<close>

definition fetch_item :: "env \<Rightarrow> json \<Rightarrow> exn + string" where
  "fetch_item E item =
     (case py_getitem item ''metadata'' of
        Inl e \<Rightarrow> Inl e
      | Inr md \<Rightarrow>
     (case py_getitem md ''filename'' of
        Inl e \<Rightarrow> Inl e
      | Inr filename \<Rightarrow>
     (case py_getitem md ''offset'' of
        Inl e \<Rightarrow> Inl e
      | Inr off \<Rightarrow>
     (case py_int E off of
        Inl e \<Rightarrow> Inl e
      | Inr start \<Rightarrow>
     (case py_getitem md ''length'' of
        Inl e \<Rightarrow> Inl e
      | Inr len_v \<Rightarrow>
     (case py_int E len_v of
        Inl e \<Rightarrow> Inl e
      | Inr len \<Rightarrow> download_and_unzip E filename start len))))))"

text \<open>Lines 60 to 66: the dict literal, its values evaluated top to bottom.\<close>

definition make_doc :: "json \<Rightarrow> string \<Rightarrow> int list \<Rightarrow> exn + doc" where
  "make_doc item text toks =
     (case py_getitem item ''surt_url'' of
        Inl e \<Rightarrow> Inl e
      | Inr u \<Rightarrow>
     (case py_getitem item ''timestamp'' of
        Inl e \<Rightarrow> Inl e
      | Inr t \<Rightarrow>
     (case py_getitem item ''metadata'' of
        Inl e \<Rightarrow> Inl e
      | Inr md \<Rightarrow>
          Inr \<lparr>url = u, timestamp = t, content = text, tokens = toks, doc_metadata = md\<rparr>)))"

text \<open>
  The body of the loop over the archive records, lines 52 to 68. An \<open>Inl\<close> is the iterator
  raising instead of yielding a record.
\<close>

definition process_record :: "env \<Rightarrow> json \<Rightarrow> exn + warc_record \<Rightarrow> worker_state \<Rightarrow> exn option \<times> worker_state" where
  "process_record E item r st =
     (case r of
        Inl e \<Rightarrow> (Some e, st)
      | Inr rcd \<Rightarrow>
          if rec_type rcd = ''response'' then
            (case content_read rcd of
               Inl e \<Rightarrow> (Some e, st)
             | Inr body \<Rightarrow>
            (case trafilatura_extract E body of
               Inl e \<Rightarrow> (Some e, st)
             | Inr text \<Rightarrow>
                 if \<not> is_valid_doc text then (None, st\<lparr>docs_filtered := docs_filtered st + 1\<rparr>)
                 else
                   (case encode E (the text) of
                      Inl e \<Rightarrow> (Some e, st)
                    | Inr toks \<Rightarrow>
                   (case make_doc item (the text) toks of
                      Inl e \<Rightarrow> (Some e, st)
                    | Inr d \<Rightarrow>
                   (case store_save E d of
                      Some e \<Rightarrow> (Some e, st)
                    | None \<Rightarrow>
                        (None, st\<lparr>saved := saved st @ [d],
                                  docs_processed := docs_processed st + 1\<rparr>))))))
          else (None, st))"

text \<open>The body of the \<open>try\<close>, lines 44 to 68, for one item of the batch.\<close>

definition try_item :: "env \<Rightarrow> json \<Rightarrow> worker_state \<Rightarrow> exn option \<times> worker_state" where
  "try_item E item st =
     (case fetch_item E item of
        Inl e \<Rightarrow> (Some e, st)
      | Inr data \<Rightarrow>
          for_each (process_record E item) (warc_records E data)
            (st\<lparr>bytes_downloaded := bytes_downloaded st + length data\<rparr>))"

text \<open>
  The \<open>try\<close> with its handler, lines 43 to 70: \<open>except Exception\<close> prints the exception and
  the loop goes on with the state the item left.
\<close>

definition process_item :: "env \<Rightarrow> json \<Rightarrow> worker_state \<Rightarrow> worker_state" where
  "process_item E item st = snd (try_item E item st)"

fun process_items :: "env \<Rightarrow> json list \<Rightarrow> worker_state \<Rightarrow> worker_state" where
  "process_items E [] st = st"
| "process_items E (item # items) st = process_items E items (process_item E item st)"

text \<open>
  \<open>Worker.process_batch\<close> (lines 36 to 80) for a delivery with tag \<open>tag\<close> and body \<open>body\<close>.
  \<open>acks\<close> lists the delivery tags \<open>basic_ack\<close> was called with.
\<close>

definition process_batch :: "env \<Rightarrow> nat \<Rightarrow> string \<Rightarrow> worker_state \<Rightarrow> exn option \<times> worker_state" where
  "process_batch E tag body st =
     (case json_loads E body of
        Inl e \<Rightarrow> (Some e, st)
      | Inr batch \<Rightarrow>
     (case py_len batch of
        Inl e \<Rightarrow> (Some e, st)
      | Inr n \<Rightarrow>
     (let st1 = st\<lparr>docs_received := docs_received st + n\<rparr>
      in case py_iter batch of
           Inl e \<Rightarrow> (Some e, st1)
         | Inr items \<Rightarrow>
             (let st2 = process_items E items st1;
                  st3 = st2\<lparr>worker_batches := worker_batches st2 + 1\<rparr>
              in (basic_ack E tag, st3\<lparr>acks := acks st3 @ [tag]\<rparr>)))))"

section \<open>ObjectStore.py\<close>

text \<open>\<open>str\<close> of a natural number and of an integer, in decimal.\<close>

fun dec :: "nat \<Rightarrow> string" where
  "dec n = (if n < 10 then [''0123456789'' ! n]
            else dec (n div 10) @ [''0123456789'' ! (n mod 10)])"

definition str_int :: "int \<Rightarrow> string" where
  "str_int i = (if i < 0 then CHR ''-'' # dec (nat (- i)) else dec (nat i))"

text \<open>The format specifications \<open>04d\<close> and \<open>02d\<close>: zeros on the left up to the width.\<close>

definition zero_pad :: "nat \<Rightarrow> nat \<Rightarrow> string" where
  "zero_pad w n = replicate (w - length (dec n)) CHR ''0'' @ dec n"

text \<open>What \<open>datetime.datetime.utcnow().date()\<close> gives, and its \<open>isoformat()\<close>.\<close>

record date =
  year :: nat
  month :: nat
  day :: nat

definition isoformat :: "date \<Rightarrow> string" where
  "isoformat d = zero_pad 4 (year d) @ ''-'' @ zero_pad 2 (month d) @ ''-'' @ zero_pad 2 (day d)"

text \<open>\<open>int(x)\<close> of a float: the fraction is cut off, towards zero.\<close>

definition py_trunc :: "real \<Rightarrow> int" where
  "py_trunc x = (if 0 \<le> x then \<lfloor>x\<rfloor> else \<lceil>x\<rceil>)"

text \<open>
  Lines 36 to 39: the key, from the two readings of the clock. The product
  \<open>time.time() * 1000\<close> is taken exactly; Python rounds it to a double before \<open>int\<close> cuts
  it, which can move a reading that lies within the rounding of a millisecond boundary
  to the next millisecond.
\<close>

definition object_key :: "date \<Rightarrow> real \<Rightarrow> string" where
  "object_key today now_s = isoformat today @ ''/'' @ str_int (py_trunc (now_s * 1000)) @ ''.jsonl''"

text \<open>
  The bucket maps a key to the body stored under it; \<open>put_object\<close> replaces what the key
  held. \<open>puts\<close> counts the calls of \<open>put_object\<close> that returned.
\<close>

record bucket =
  objects :: "string \<rightharpoonup> string"
  puts :: nat

definition bucket_init :: bucket where
  "bucket_init = \<lparr>objects = Map.empty, puts = 0\<rparr>"

text \<open>
  \<open>ObjectStore.save\<close> (lines 33 to 49). \<open>today\<close> is the date of \<open>utcnow()\<close> and \<open>now_s\<close> the
  value of \<open>time.time()\<close>, as an exact number of seconds; \<open>dumps\<close> is
  \<open>json.dumps(doc, ensure_ascii=False)\<close> and \<open>put_result\<close> what \<open>put_object\<close> does for a key.
  \<open>json.dumps\<close> and \<open>encode("utf-8")\<close> are taken to return; the one failure of \<open>save\<close> is
  that of \<open>put_object\<close>.
\<close>

definition save :: "(doc \<Rightarrow> string) \<Rightarrow> (string \<Rightarrow> exn option) \<Rightarrow> date \<Rightarrow> real \<Rightarrow> doc \<Rightarrow> bucket \<Rightarrow> exn option \<times> bucket" where
  "save dumps put_result today now_s d bk =
     (let key = object_key today now_s;
          line = dumps d @ [CHR 0x0A]
      in case put_result key of
           Some e \<Rightarrow> (Some e, bk)
         | None \<Rightarrow> (None, bk\<lparr>objects := (objects bk)(key \<mapsto> line), puts := puts bk + 1\<rparr>))"

section \<open>Notions used to state the properties\<close>









text \<open>The documents a worker saves for one item when it processes the item alone.\<close>

definition item_saves :: "env \<Rightarrow> json \<Rightarrow> doc list" where
  "item_saves E item = saved (process_item E item worker_init)"

text \<open>Two worker states whose saved documents differ by the prefix \<open>pre\<close>.\<close>

definition saved_after :: "doc list \<Rightarrow> worker_state \<Rightarrow> worker_state \<Rightarrow> bool" where
  "saved_after pre s t = (saved s = pre @ saved t)"

section \<open>Concrete inputs for the examples\<close>

text \<open>A broker that refuses the credentials at every publish.\<close>

definition auth_broker :: broker where
  "auth_broker = \<lparr>publish_result = (\<lambda>n. RaisesAuth), connect_result = (\<lambda>n. None)\<rparr>"

text \<open>
  A broker on which every publish fails with a transport error (\<open>StreamLostError\<close>, say)
  and every reconnect succeeds.
\<close>

definition transport_broker :: broker where
  "transport_broker = \<lparr>publish_result = (\<lambda>n. RaisesTransport), connect_result = (\<lambda>n. None)\<rparr>"

text \<open>
  Three lines of an index chunk: an English page with status 200, an English page with
  status 404, and a line whose JSON is cut off.
\<close>

definition line_eng_200 :: string where
  \<open>line_eng_200 = ''com,example)/ 20240722120756 {"status": "200", "languages": "eng,fra"}''\<close>

definition line_eng_404 :: string where
  \<open>line_eng_404 = ''com,example)/gone 20240722120757 {"status": "404", "languages": "eng"}''\<close>

definition line_malformed :: string where
  \<open>line_malformed = ''com,example)/cut 20240722120758 {"status": "200", "languages"''\<close>

definition md_eng_200 :: json where
  "md_eng_200 = JObj [(''status'', JStr ''200''), (''languages'', JStr ''eng,fra'')]"

definition md_eng_404 :: json where
  "md_eng_404 = JObj [(''status'', JStr ''404''), (''languages'', JStr ''eng'')]"

definition found_eng_200 :: found_url where
  "found_eng_200 = \<lparr>surt_url = ''com,example)/'', found_timestamp = ''20240722120756'',
     metadata = md_eng_200\<rparr>"

text \<open>A chunk that parses, and a chunk with the cut line between two good ones.\<close>

definition chunk_complete :: string where
  "chunk_complete = line_eng_200 @ [CHR 0x0A] @ line_eng_404 @ [CHR 0x0A]"

definition chunk_broken :: string where
  "chunk_broken =
     line_eng_200 @ [CHR 0x0A] @ line_malformed @ [CHR 0x0A] @ line_eng_200 @ [CHR 0x0A]"

definition index_complete :: "string list list" where
  "index_complete =
     [[''com,example)/ 20240722120756'', ''cdx-00000.gz'', ''0'', ''188224'', ''1'']]"

definition index_broken :: "string list list" where
  "index_broken =
     [[''com,example)/ 20240722120756'', ''cdx-00001.gz'', ''188224'', ''178351'', ''2'']]"

text \<open>
  Four items of a batch. The range of the second cannot be fetched; the archive bytes of
  the fourth hold one response record and then broken framing.
\<close>

definition item_for :: "string \<Rightarrow> json" where
  "item_for filename =
     JObj [(''surt_url'', JStr ''com,example)/''), (''timestamp'', JStr ''20240722120756''),
           (''metadata'', JObj [(''filename'', JStr filename), (''offset'', JStr ''0''),
                               (''length'', JStr ''178351'')])]"

definition doc_for :: "string \<Rightarrow> char \<Rightarrow> doc" where
  "doc_for filename c =
     \<lparr>url = JStr ''com,example)/'', timestamp = JStr ''20240722120756'',
      content = replicate 500 c, tokens = [464, 3290],
      doc_metadata = JObj [(''filename'', JStr filename), (''offset'', JStr ''0''),
                          (''length'', JStr ''178351'')]\<rparr>"

definition batch_body :: string where
  \<open>batch_body = ''[{"surt_url": "com,example)/", "timestamp": "20240722120756", "metadata": {"filename": "a.warc.gz", "offset": "0", "length": "178351"}}, {"surt_url": "com,example)/", "timestamp": "20240722120756", "metadata": {"filename": "b.warc.gz", "offset": "0", "length": "178351"}}, {"surt_url": "com,example)/", "timestamp": "20240722120756", "metadata": {"filename": "c.warc.gz", "offset": "0", "length": "178351"}}]''\<close>

text \<open>
  \<open>json.loads\<close> and \<open>int\<close> on the texts the examples pass to them: the values agree with
  Python's there, and no example depends on the value elsewhere.
\<close>

definition example_loads :: "string \<Rightarrow> exn + json" where
  \<open>example_loads s =
     (if s = ''{"status":"200","languages":"eng,fra"}'' then Inr md_eng_200
      else if s = ''{"status":"404","languages":"eng"}'' then Inr md_eng_404
      else if s = batch_body
        then Inr (JArr [item_for ''a.warc.gz'', item_for ''b.warc.gz'', item_for ''c.warc.gz''])
      else Inl JSONDecodeError)\<close>

definition example_int :: "json \<Rightarrow> exn + int" where
  "example_int j =
     (case j of
        JStr s \<Rightarrow>
          (if s = ''0'' then Inr 0
           else if s = ''188224'' then Inr 188224
           else if s = ''178351'' then Inr 178351
           else Inl ValueError)
      | _ \<Rightarrow> Inl TypeError)"

definition example_download :: "json \<Rightarrow> int \<Rightarrow> int \<Rightarrow> exn + string" where
  "example_download u start len =
     (if u = JStr ''cdx-00000.gz'' then Inr chunk_complete
      else if u = JStr ''cdx-00001.gz'' then Inr chunk_broken
      else if u = JStr ''a.warc.gz'' then Inr ''warc-a''
      else if u = JStr ''b.warc.gz'' then Inl DecodeError
      else if u = JStr ''c.warc.gz'' then Inr ''warc-c''
      else if u = JStr ''d.warc.gz'' then Inr ''warc-d''
      else Inl HTTPError)"

definition example_warc :: "string \<Rightarrow> (exn + warc_record) list" where
  "example_warc data =
     (if data = ''warc-a''
        then [Inr \<lparr>rec_type = ''request'', content_read = Inr ''GET /''\<rparr>,
              Inr \<lparr>rec_type = ''response'', content_read = Inr ''html-a''\<rparr>]
      else if data = ''warc-c''
        then [Inr \<lparr>rec_type = ''response'', content_read = Inr ''html-c''\<rparr>]
      else if data = ''warc-d''
        then [Inr \<lparr>rec_type = ''response'', content_read = Inr ''html-d''\<rparr>,
              Inl DecodeError,
              Inr \<lparr>rec_type = ''response'', content_read = Inr ''html-a''\<rparr>]
      else [])"

definition example_extract :: "string \<Rightarrow> exn + string option" where
  "example_extract body =
     (if body = ''html-a'' then Inr (Some (replicate 500 CHR ''a''))
      else if body = ''html-c'' then Inr (Some (replicate 500 CHR ''c''))
      else if body = ''html-d'' then Inr (Some (replicate 500 CHR ''d''))
      else Inr None)"

definition example_env :: env where
  "example_env = \<lparr>
     download_and_unzip = example_download,
     decode_utf8 = Inr,
     py_int = example_int,
     json_loads = example_loads,
     channel_publish = (\<lambda>log batch. None),
     warc_records = example_warc,
     trafilatura_extract = example_extract,
     encode = (\<lambda>text. Inr [464, 3290]),
     store_save = (\<lambda>d. None),
     basic_ack = (\<lambda>tag. None)\<rparr>"









text \<open>A day and two readings of \<open>time.time()\<close> within one millisecond of it.\<close>

definition day_2023_11_14 :: date where
  "day_2023_11_14 = \<lparr>year = 2023, month = 11, day = 14\<rparr>"

definition reading_1 :: real where
  "reading_1 = 1700000000 + 1 / 10000"

definition reading_2 :: real where
  "reading_2 = 1700000000 + 9 / 10000"

section \<open>Publishing with retries\<close>

text \<open>
  C8: when the first publish attempt of a call raises an authentication or authorization
  error, \<open>basic_publish\<close> raises that error at once: the call makes this one publish
  attempt and nothing else, no sleep and no reconnect.
\<close>

theorem auth_error_raises_at_once:
  assumes "publish_result b (publishes tr) = RaisesAuth"
  shows "basic_publish b body tr = (Some AuthenticationError, tr @ [Publish body])
       \<and> publishes (snd (basic_publish b body tr)) = publishes tr + 1
       \<and> sleeps (snd (basic_publish b body tr)) = sleeps tr
       \<and> connects (snd (basic_publish b body tr)) = connects tr"
  using assms
  by (simp add: basic_publish_def publish_loop_def MAX_RETRIES_def publishes_def sleeps_def
      connects_def)

theorem auth_error_raises_at_once_witness:
  "publish_result auth_broker (publishes []) = RaisesAuth
   \<and> basic_publish auth_broker ''[]'' [] = (Some AuthenticationError, [Publish ''[]''])
   \<and> publishes (snd (basic_publish auth_broker ''[]'' [])) = 1
   \<and> sleeps (snd (basic_publish auth_broker ''[]'' [])) = 0
   \<and> connects (snd (basic_publish auth_broker ''[]'' [])) = 0"
proof -
  have h: "publish_result auth_broker (publishes []) = RaisesAuth"
    by (simp add: auth_broker_def)
  show ?thesis
    using h auth_error_raises_at_once [OF h, of "''[]''"]
    by (simp add: publishes_def sleeps_def connects_def)
qed

text \<open>
  C2: on a broker where every publish fails with a transport error, \<open>basic_publish\<close> makes
  one publish attempt, sleeps once, reconnects once and raises \<open>RuntimeError\<close>: the
  \<open>raise\<close> of line 72 is reached at the end of the first pass through the loop body, so
  the second and third attempt never happen.
\<close>

theorem transport_failure_one_attempt:
  "basic_publish transport_broker ''[]'' [] =
     (Some RuntimeError, [Publish ''[]'', Sleep 5, Connect])
   \<and> publishes (snd (basic_publish transport_broker ''[]'' [])) = 1"
  by (simp add: basic_publish_def publish_loop_def recover_def MAX_RETRIES_def RETRY_DELAY_def
      transport_broker_def publishes_def connects_def)

section \<open>The length band\<close>

text \<open>
  C9: \<open>_is_valid_doc\<close> rejects \<open>None\<close> and accepts a text exactly when its length is at
  least 500 and at most 1,000,000; lengths 499 and 1,000,001 are rejected, lengths 500 and
  1,000,000 are accepted.
\<close>

theorem length_band:
  "\<not> is_valid_doc None
   \<and> (\<forall>text. is_valid_doc (Some text) = (500 \<le> length text \<and> length text \<le> 1000000))
   \<and> \<not> is_valid_doc (Some (replicate 499 c))
   \<and> is_valid_doc (Some (replicate 500 c))
   \<and> is_valid_doc (Some (replicate 1000000 c))
   \<and> \<not> is_valid_doc (Some (replicate 1000001 c))"
  by (simp add: MIN_DOC_LENGTH_def MAX_DOC_LENGTH_def)

section \<open>The object key\<close>

lemma key_of_reading_1:
  "object_key day_2023_11_14 reading_1 = ''2023-11-14/1700000000000.jsonl''"
  by (simp add: object_key_def day_2023_11_14_def reading_1_def isoformat_def zero_pad_def
      str_int_def py_trunc_def)

lemma key_of_reading_2:
  "object_key day_2023_11_14 reading_2 = ''2023-11-14/1700000000000.jsonl''"
  by (simp add: object_key_def day_2023_11_14_def reading_2_def isoformat_def zero_pad_def
      str_int_def py_trunc_def)

text \<open>
  C4: two calls of \<open>save\<close> on 2023-11-14 whose clock readings, 1700000000.0001 and
  1700000000.0009, fall into the same millisecond get the same key, and the second call
  replaces the object of the first: after two calls that both returned, the bucket holds
  one object, the second document. This holds for every serializer and every two
  documents.
\<close>

theorem same_millisecond_same_key:
  "reading_1 < reading_2
   \<and> object_key day_2023_11_14 reading_1 = ''2023-11-14/1700000000000.jsonl''
   \<and> object_key day_2023_11_14 reading_2 = ''2023-11-14/1700000000000.jsonl''
   \<and> snd (save dumps (\<lambda>key. None) day_2023_11_14 reading_2 d2
        (snd (save dumps (\<lambda>key. None) day_2023_11_14 reading_1 d1 bucket_init)))
     = \<lparr>objects = [''2023-11-14/1700000000000.jsonl'' \<mapsto> dumps d2 @ [CHR 0x0A]], puts = 2\<rparr>"
proof -
  have "reading_1 < reading_2"
    by (simp add: reading_1_def reading_2_def)
  then show ?thesis
    by (simp add: save_def bucket_init_def key_of_reading_1 key_of_reading_2)
qed

section \<open>Loops\<close>


lemma for_each_stops:
  assumes "for_each body xs s = (None, s1)" and "body x s1 = (Some e, s2)"
  shows "for_each body (xs @ x # ys) s = (Some e, s2)"
  using assms
proof (induction xs arbitrary: s)
  case Nil
  then show ?case by simp
next
  case (Cons a xs)
  from Cons.prems(1) obtain s' where
    a: "body a s = (None, s')" and r: "for_each body xs s' = (None, s1)"
    by (auto split: prod.splits option.splits)
  from Cons.IH [OF r Cons.prems(2)] a show ?case by simp
qed

lemma for_each_sim:
  assumes "\<And>x s t. R s t \<Longrightarrow>
             fst (body x s) = fst (body x t) \<and> R (snd (body x s)) (snd (body x t))"
      and "R s t"
  shows "fst (for_each body xs s) = fst (for_each body xs t)
       \<and> R (snd (for_each body xs s)) (snd (for_each body xs t))"
  using assms(2)
proof (induction xs arbitrary: s t)
  case Nil
  then show ?case by simp
next
  case (Cons x xs)
  from assms(1) [OF Cons.prems, of x]
  have f: "fst (body x s) = fst (body x t)" and r: "R (snd (body x s)) (snd (body x t))"
    by simp_all
  show ?case
  proof (cases "fst (body x s)")
    case None
    with f have "for_each body (x # xs) s = for_each body xs (snd (body x s))"
      and "for_each body (x # xs) t = for_each body xs (snd (body x t))"
      by (auto split: prod.splits option.splits)
    with Cons.IH [OF r] show ?thesis by simp
  next
    case (Some e)
    with f have "for_each body (x # xs) s = (Some e, snd (body x s))"
      and "for_each body (x # xs) t = (Some e, snd (body x t))"
      by (auto split: prod.splits option.splits)
    with r show ?thesis by simp
  qed
qed

lemma for_each_keeps:
  assumes "\<And>x s. f (snd (body x s)) = f s"
  shows "f (snd (for_each body xs s)) = f s"
proof (induction xs arbitrary: s)
  case Nil
  then show ?case by simp
next
  case (Cons x xs)
  show ?case
  proof (cases "body x s")
    case (Pair r s1)
    have "f s1 = f s" using assms [of x s] Pair by simp
    with Cons.IH [of s1] Pair show ?thesis by (cases r) simp_all
  qed
qed

section \<open>The acceptance rule\<close>

lemma map_of_key_iff: "(k \<in> fst ` set kvs) = (map_of kvs k \<noteq> None)"
  by (induction kvs) auto












text \<open>
  C10: the condition of line 68 is evaluated left to right. For a metadata mapping
  without \<open>languages\<close> nothing is subscripted and the row is rejected. For one whose
  \<open>languages\<close> does not contain \<open>"eng"\<close> only \<open>languages\<close> is subscripted and the outcome is
  that of the membership test, which is \<open>False\<close> (or a \<open>TypeError\<close> when the value is no
  container), never an acceptance; so \<open>status\<close> may be absent there. \<open>status\<close> is
  subscripted only when \<open>languages\<close> is present and contains \<open>"eng"\<close>, and then a missing
  \<open>status\<close> is a \<open>KeyError\<close>.
\<close>

theorem status_read_only_after_eng:
  "(map_of kvs ''languages'' = None \<longrightarrow> accept_reads (JObj kvs) = ([], Inr False))
   \<and> (map_of kvs ''languages'' = Some v \<and> \<not> json_contains v ''eng'' \<longrightarrow>
        accept_reads (JObj kvs) = ([''languages''], py_in ''eng'' v)
        \<and> (py_in ''eng'' v = Inr False \<or> py_in ''eng'' v = Inl TypeError))
   \<and> (''status'' \<in> set (fst (accept_reads md)) \<longrightarrow>
        (\<exists>kvs' v'. md = JObj kvs' \<and> map_of kvs' ''languages'' = Some v'
                     \<and> json_contains v' ''eng''))
   \<and> (map_of kvs2 ''languages'' = Some v2 \<and> json_contains v2 ''eng''
        \<and> map_of kvs2 ''status'' = None \<longrightarrow>
        accept_reads (JObj kvs2) = ([''languages'', ''status''], Inl (KeyError ''status'')))"
proof (intro conjI impI)
  assume "map_of kvs ''languages'' = None"
  then show "accept_reads (JObj kvs) = ([], Inr False)"
    by (simp add: accept_reads_def map_of_key_iff)
next
  assume a: "map_of kvs ''languages'' = Some v \<and> \<not> json_contains v ''eng''"
  then show "accept_reads (JObj kvs) = ([''languages''], py_in ''eng'' v)"
    by (cases v) (simp_all add: accept_reads_def map_of_key_iff)
  from a show "py_in ''eng'' v = Inr False \<or> py_in ''eng'' v = Inl TypeError"
    by (cases v) simp_all
next
  assume s: "''status'' \<in> set (fst (accept_reads md))"
  show "\<exists>kvs' v'. md = JObj kvs' \<and> map_of kvs' ''languages'' = Some v'
                   \<and> json_contains v' ''eng''"
  proof (cases md)
    case (JObj kvs')
    show ?thesis
    proof (cases "map_of kvs' ''languages''")
      case None
      with s JObj show ?thesis by (simp add: accept_reads_def map_of_key_iff)
    next
      case (Some v')
      with s JObj have "json_contains v' ''eng''"
        by (cases v') (auto simp: accept_reads_def map_of_key_iff split: bool.splits)
      with JObj Some show ?thesis by simp
    qed
  qed (use s in \<open>auto simp: accept_reads_def split: sum.splits bool.splits\<close>)
next
  assume "map_of kvs2 ''languages'' = Some v2 \<and> json_contains v2 ''eng''
          \<and> map_of kvs2 ''status'' = None"
  then show "accept_reads (JObj kvs2) = ([''languages'', ''status''], Inl (KeyError ''status''))"
    by (cases v2) (simp_all add: accept_reads_def map_of_key_iff)
qed

theorem status_read_only_after_eng_witness:
  "accept_reads (JObj [(''url'', JStr ''https://example.com/'')]) = ([], Inr False)
   \<and> accept_reads (JObj [(''languages'', JStr ''fra,deu'')]) = ([''languages''], Inr False)
   \<and> ''status'' \<in> set (fst (accept_reads md_eng_200))
   \<and> json_contains (JStr ''eng,fra'') ''eng''
   \<and> accept_reads (JObj [(''languages'', JArr [JStr ''eng''])]) =
        ([''languages'', ''status''], Inl (KeyError ''status''))"
proof -
  have r: "''status'' \<in> set (fst (accept_reads md_eng_200))"
    by (simp add: accept_reads_def md_eng_200_def)
  have c: "json_contains (JStr ''eng,fra'') ''eng''"
    by simp
  show ?thesis
    using r c
      status_read_only_after_eng [of "[(''url'', JStr ''https://example.com/'')]" JNull JNull "[]" JNull]
      status_read_only_after_eng [of "[(''languages'', JStr ''fra,deu'')]" "JStr ''fra,deu''" md_eng_200
        "[(''languages'', JArr [JStr ''eng''])]" "JArr [JStr ''eng'']"]
    by simp
qed

section \<open>The batcher\<close>










text \<open>The two example runs, evaluated.\<close>

lemmas example_defs = line_eng_200_def line_eng_404_def line_malformed_def md_eng_200_def
  md_eng_404_def example_loads_def example_int_def example_download_def chunk_complete_def
  chunk_broken_def example_env_def index_complete_def index_broken_def found_eng_200_def
  batch_body_def

lemmas batcher_defs = process_index_def process_chunk_def fetch_chunk_def process_line_def
  flush_full_def flush_rest_def append_found_def publish_batch_def accept_def accept_reads_def
  batcher_init_def BATCH_SIZE_def

lemma run_complete:
  "process_index example_env index_complete BATCH_SIZE batcher_init =
     (None, \<lparr>found_urls = [found_eng_200], published = [[found_eng_200], [found_eng_200]],
             batch_counter = 2, batcher_docs_seen = 2, batcher_docs_filtered = 1,
             batcher_docs_sent = 2\<rparr>)"
  by (simp add: example_defs batcher_defs)

lemma run_broken:
  "process_index example_env index_broken BATCH_SIZE batcher_init =
     (Some JSONDecodeError,
      \<lparr>found_urls = [found_eng_200], published = [], batch_counter = 0,
       batcher_docs_seen = 2, batcher_docs_filtered = 1, batcher_docs_sent = 0\<rparr>)"
  by (simp add: example_defs batcher_defs)


lemma lines_of_chunk_broken:
  "split_on CHR 0x0A chunk_broken = [line_eng_200, line_malformed, line_eng_200, []]"
  by (simp add: chunk_broken_def line_eng_200_def line_malformed_def)


lemma fetch_chunk_broken:
  "fetch_chunk example_env
     [''com,example)/ 20240722120756'', ''cdx-00001.gz'', ''188224'', ''178351'', ''2'']
     = Inr chunk_broken"
  by (simp add: fetch_chunk_def example_env_def example_int_def example_download_def)



lemma loads_line_malformed:
  "json_loads example_env (concat (drop 2 (split_on CHR '' '' line_malformed)))
     = Inl JSONDecodeError"
  by (simp add: example_env_def example_loads_def line_malformed_def batch_body_def)






text \<open>
  C1: on an index of one chunk with one qualifying row, with batch size 50, the run
  returns and the channel has received the batch of that row twice: the block of lines
  79 to 81 publishes it and the block of lines 83 to 85 publishes it again. Both
  publishes are counted: two batches sent, two documents sent, for one row filtered in.
\<close>

theorem final_batch_published_twice:
  "fst (process_index example_env index_complete BATCH_SIZE batcher_init) = None
   \<and> published (snd (process_index example_env index_complete BATCH_SIZE batcher_init))
       = [[found_eng_200], [found_eng_200]]
   \<and> batch_counter (snd (process_index example_env index_complete BATCH_SIZE batcher_init)) = 2
   \<and> batcher_docs_sent (snd (process_index example_env index_complete BATCH_SIZE batcher_init)) = 2
   \<and> batcher_docs_filtered (snd (process_index example_env index_complete BATCH_SIZE batcher_init)) = 1"
  by (simp add: run_complete)

text \<open>
  C5: in the same run, with \<open>BATCH_SIZE\<close> 50, two batches are published and both have
  length 1: the first of them is not the last one, and its length is not \<open>BATCH_SIZE\<close>.
\<close>

theorem short_batch_before_the_last:
  "BATCH_SIZE = 50
   \<and> map length (published (snd (process_index example_env index_complete BATCH_SIZE batcher_init)))
       = [1, 1]"
  by (simp add: run_complete) (simp add: BATCH_SIZE_def)

text \<open>
  C3, the claim as stated fails on the producer side: a chunk of three non-empty lines
  whose second line has malformed JSON ends the run with the decode error. Two lines have
  been seen, the third is never processed, and the row of the first line, which was
  accepted, is never published.
\<close>

theorem malformed_line_aborts_run:
  "split_on CHR 0x0A chunk_broken = [line_eng_200, line_malformed, line_eng_200, []]
   \<and> fst (process_index example_env index_broken BATCH_SIZE batcher_init) = Some JSONDecodeError
   \<and> batcher_docs_seen (snd (process_index example_env index_broken BATCH_SIZE batcher_init)) = 2
   \<and> found_urls (snd (process_index example_env index_broken BATCH_SIZE batcher_init))
       = [found_eng_200]
   \<and> published (snd (process_index example_env index_broken BATCH_SIZE batcher_init)) = []"
  by (simp add: run_broken lines_of_chunk_broken)

section \<open>The worker\<close>

lemma process_record_sim:
  assumes "saved_after pre s t"
  shows "fst (process_record E item r s) = fst (process_record E item r t)
       \<and> saved_after pre (snd (process_record E item r s)) (snd (process_record E item r t))"
  using assms
  by (auto simp: process_record_def saved_after_def split: sum.splits option.splits)

lemma try_item_sim:
  assumes "saved_after pre s t"
  shows "fst (try_item E item s) = fst (try_item E item t)
       \<and> saved_after pre (snd (try_item E item s)) (snd (try_item E item t))"
proof (cases "fetch_item E item")
  case (Inl e)
  with assms show ?thesis by (simp add: try_item_def)
next
  case (Inr data)
  have "saved_after pre (s\<lparr>bytes_downloaded := bytes_downloaded s + length data\<rparr>)
          (t\<lparr>bytes_downloaded := bytes_downloaded t + length data\<rparr>)"
    using assms by (simp add: saved_after_def)
  from for_each_sim [of "saved_after pre" "process_record E item", OF process_record_sim this]
  show ?thesis using Inr by (simp add: try_item_def)
qed

lemma process_item_saved: "saved (process_item E item st) = saved st @ item_saves E item"
proof -
  have "saved_after (saved st) st worker_init" by (simp add: saved_after_def worker_init_def)
  from try_item_sim [OF this, of E item]
  show ?thesis by (simp add: process_item_def item_saves_def saved_after_def)
qed

lemma process_items_saved:
  "saved (process_items E items st) = saved st @ concat (map (item_saves E) items)"
  by (induction items arbitrary: st) (simp_all add: process_item_saved)

lemma process_items_append:
  "process_items E (xs @ ys) st = process_items E ys (process_items E xs st)"
  by (induction xs arbitrary: st) simp_all

lemma process_record_frame:
  "acks (snd (process_record E item r s)) = acks s"
  "docs_received (snd (process_record E item r s)) = docs_received s"
  "worker_batches (snd (process_record E item r s)) = worker_batches s"
  by (auto simp: process_record_def split: sum.splits option.splits)

lemma process_item_frame:
  "acks (process_item E item s) = acks s"
  "docs_received (process_item E item s) = docs_received s"
  "worker_batches (process_item E item s) = worker_batches s"
  by (cases "fetch_item E item";
      simp add: process_item_def try_item_def
        for_each_keeps [of acks, OF process_record_frame(1)]
        for_each_keeps [of docs_received, OF process_record_frame(2)]
        for_each_keeps [of worker_batches, OF process_record_frame(3)])+

lemma process_items_frame:
  "acks (process_items E items s) = acks s"
  "docs_received (process_items E items s) = docs_received s"
  "worker_batches (process_items E items s) = worker_batches s"
  by (induction items arbitrary: s) (simp_all add: process_item_frame)

text \<open>The example items, each processed alone.\<close>

lemmas worker_defs = process_item_def try_item_def fetch_item_def process_record_def
  make_doc_def item_for_def doc_for_def example_env_def example_int_def example_download_def
  example_warc_def example_extract_def worker_init_def MIN_DOC_LENGTH_def MAX_DOC_LENGTH_def

lemma saves_of_item_a: "item_saves example_env (item_for ''a.warc.gz'') = [doc_for ''a.warc.gz'' CHR ''a'']"
  by (simp add: item_saves_def worker_defs)

lemma saves_of_item_b: "item_saves example_env (item_for ''b.warc.gz'') = []"
  by (simp add: item_saves_def worker_defs)

lemma saves_of_item_c: "item_saves example_env (item_for ''c.warc.gz'') = [doc_for ''c.warc.gz'' CHR ''c'']"
  by (simp add: item_saves_def worker_defs)

lemma saves_of_item_d: "item_saves example_env (item_for ''d.warc.gz'') = [doc_for ''d.warc.gz'' CHR ''d'']"
  by (simp add: item_saves_def worker_defs)

lemma fetch_of_item_b: "fetch_item example_env (item_for ''b.warc.gz'') = Inl DecodeError"
  by (simp add: worker_defs)

lemma fetch_of_item_d: "fetch_item example_env (item_for ''d.warc.gz'') = Inr ''warc-d''"
  by (simp add: worker_defs)

lemma loads_batch_body:
  "json_loads example_env batch_body
     = Inr (JArr [item_for ''a.warc.gz'', item_for ''b.warc.gz'', item_for ''c.warc.gz''])"
  by (simp add: example_env_def example_loads_def batch_body_def)

text \<open>
  C7: for a delivery whose body is a JSON array, no exception of an item leaves
  \<open>process_batch\<close> (its outcome is that of the one \<open>basic_ack\<close> call at its end), the
  delivery is acknowledged exactly once, all items are counted as received, and the saved
  documents are, in order, those that each item saves when it is processed alone: an item
  that raises loses only what it had not yet saved, and the items after it are processed.
\<close>

theorem process_batch_isolates_items:
  assumes "json_loads E body = Inr (JArr items)"
  shows "fst (process_batch E tag body st) = basic_ack E tag
       \<and> acks (snd (process_batch E tag body st)) = acks st @ [tag]
       \<and> saved (snd (process_batch E tag body st)) = saved st @ concat (map (item_saves E) items)
       \<and> docs_received (snd (process_batch E tag body st)) = docs_received st + length items
       \<and> worker_batches (snd (process_batch E tag body st)) = worker_batches st + 1"
  using assms by (simp add: process_batch_def Let_def process_items_saved process_items_frame)

theorem process_batch_isolates_items_witness:
  "json_loads example_env batch_body
     = Inr (JArr [item_for ''a.warc.gz'', item_for ''b.warc.gz'', item_for ''c.warc.gz''])
   \<and> fetch_item example_env (item_for ''b.warc.gz'') = Inl DecodeError
   \<and> fst (process_batch example_env 7 batch_body worker_init) = None
   \<and> acks (snd (process_batch example_env 7 batch_body worker_init)) = [7]
   \<and> saved (snd (process_batch example_env 7 batch_body worker_init))
       = [doc_for ''a.warc.gz'' CHR ''a'', doc_for ''c.warc.gz'' CHR ''c'']
   \<and> docs_received (snd (process_batch example_env 7 batch_body worker_init)) = 3"
  using process_batch_isolates_items [OF loads_batch_body, of 7 worker_init]
    loads_batch_body fetch_of_item_b
  by (simp add: saves_of_item_a saves_of_item_b saves_of_item_c)
     (simp add: example_env_def worker_init_def)

section \<open>The reach of a decode error\<close>

lemma process_line_malformed:
  assumes "bad \<noteq> []" and "json_loads E (concat (drop 2 (split_on CHR '' '' bad))) = Inl e"
  shows "process_line E n bad st = (Some e, st\<lparr>batcher_docs_seen := batcher_docs_seen st + 1\<rparr>)"
  using assms by (simp add: process_line_def Let_def)

text \<open>
  C3, as amended. In the worker, when the archive iterator of an item raises after the
  records \<open>rs\<close>, the item ends there with what it has saved so far, the items after it are
  processed from that state, and the saved documents of the batch are those that each
  item saves alone. In the batcher, a non-empty line whose JSON does not parse ends
  \<open>process_index\<close> with that exception, whatever lines and rows follow: the line has been
  counted as seen, nothing after it is processed and the final flush is not reached.
\<close>

theorem decode_error_scope:
  "(fetch_item E x = Inr data \<and> warc_records E data = rs @ Inl e # rest
      \<and> for_each (process_record E x) rs
           ((process_items E xs st)\<lparr>bytes_downloaded :=
               bytes_downloaded (process_items E xs st) + length data\<rparr>) = (None, st_x)
    \<longrightarrow> try_item E x (process_items E xs st) = (Some e, st_x)
        \<and> process_items E (xs @ x # ys) st = process_items E ys st_x
        \<and> saved (process_items E (xs @ x # ys) st)
            = saved st @ concat (map (item_saves E) xs) @ item_saves E x
                @ concat (map (item_saves E) ys))
   \<and> (for_each (process_chunk E n) rows (bst\<lparr>found_urls := []\<rparr>) = (None, bst1)
      \<and> fetch_chunk E row = Inr text \<and> split_on CHR 0x0A text = ls @ bad # ls'
      \<and> for_each (process_line E n) ls bst1 = (None, bst2)
      \<and> bad \<noteq> [] \<and> json_loads E (concat (drop 2 (split_on CHR '' '' bad))) = Inl e'
    \<longrightarrow> process_index E (rows @ row # rows') n bst
          = (Some e', bst2\<lparr>batcher_docs_seen := batcher_docs_seen bst2 + 1\<rparr>))"
proof (intro conjI impI)
  assume a: "fetch_item E x = Inr data \<and> warc_records E data = rs @ Inl e # rest
      \<and> for_each (process_record E x) rs
           ((process_items E xs st)\<lparr>bytes_downloaded :=
               bytes_downloaded (process_items E xs st) + length data\<rparr>) = (None, st_x)"
  have stop: "process_record E x (Inl e) st_x = (Some e, st_x)"
    by (simp add: process_record_def)
  from a for_each_stops [of "process_record E x" rs _ st_x "Inl e" e st_x rest, OF _ stop]
  show t: "try_item E x (process_items E xs st) = (Some e, st_x)"
    by (simp add: try_item_def)
  then show "process_items E (xs @ x # ys) st = process_items E ys st_x"
    by (simp add: process_items_append process_item_def)
  show "saved (process_items E (xs @ x # ys) st)
          = saved st @ concat (map (item_saves E) xs) @ item_saves E x
              @ concat (map (item_saves E) ys)"
    by (simp add: process_items_saved)
next
  assume b: "for_each (process_chunk E n) rows (bst\<lparr>found_urls := []\<rparr>) = (None, bst1)
      \<and> fetch_chunk E row = Inr text \<and> split_on CHR 0x0A text = ls @ bad # ls'
      \<and> for_each (process_line E n) ls bst1 = (None, bst2)
      \<and> bad \<noteq> [] \<and> json_loads E (concat (drop 2 (split_on CHR '' '' bad))) = Inl e'"
  let ?end = "bst2\<lparr>batcher_docs_seen := batcher_docs_seen bst2 + 1\<rparr>"
  from b have line: "process_line E n bad bst2 = (Some e', ?end)"
    by (simp add: process_line_malformed)
  from b for_each_stops [of "process_line E n" ls bst1 bst2 bad e' ?end ls', OF _ line]
  have chunk: "process_chunk E n row bst1 = (Some e', ?end)"
    by (simp add: process_chunk_def)
  from b for_each_stops [of "process_chunk E n" rows _ bst1 row e' ?end rows', OF _ chunk]
  show "process_index E (rows @ row # rows') n bst = (Some e', ?end)"
    by (simp add: process_index_def)
qed

theorem decode_error_scope_witness:
  "fetch_item example_env (item_for ''d.warc.gz'') = Inr ''warc-d''
   \<and> warc_records example_env ''warc-d''
       = [Inr \<lparr>rec_type = ''response'', content_read = Inr ''html-d''\<rparr>] @ Inl DecodeError
           # [Inr \<lparr>rec_type = ''response'', content_read = Inr ''html-a''\<rparr>]
   \<and> fst (try_item example_env (item_for ''d.warc.gz'')
            (process_items example_env [item_for ''a.warc.gz''] worker_init)) = Some DecodeError
   \<and> saved (process_items example_env
        ([item_for ''a.warc.gz''] @ item_for ''d.warc.gz'' # [item_for ''c.warc.gz'']) worker_init)
       = [doc_for ''a.warc.gz'' CHR ''a'', doc_for ''d.warc.gz'' CHR ''d'',
          doc_for ''c.warc.gz'' CHR ''c'']
   \<and> split_on CHR 0x0A chunk_broken = [line_eng_200] @ line_malformed # [line_eng_200, []]
   \<and> process_index example_env
        ([] @ [''com,example)/ 20240722120756'', ''cdx-00001.gz'', ''188224'', ''178351'', ''2''] # [])
        BATCH_SIZE batcher_init
       = (Some JSONDecodeError,
          \<lparr>found_urls = [found_eng_200], published = [], batch_counter = 0,
           batcher_docs_seen = 2, batcher_docs_filtered = 1, batcher_docs_sent = 0\<rparr>)"
proof -
  let ?a = "item_for ''a.warc.gz''" and ?d = "item_for ''d.warc.gz''" and ?c = "item_for ''c.warc.gz''"
  let ?rd = "Inr \<lparr>rec_type = ''response'', content_read = Inr ''html-d''\<rparr> :: exn + warc_record"
  let ?ra = "Inr \<lparr>rec_type = ''response'', content_read = Inr ''html-a''\<rparr> :: exn + warc_record"
  let ?stx = "\<lparr>docs_received = 0, bytes_downloaded = 12, docs_filtered = 0, docs_processed = 2,
               worker_batches = 0,
               saved = [doc_for ''a.warc.gz'' CHR ''a'', doc_for ''d.warc.gz'' CHR ''d''],
               acks = []\<rparr>"
  let ?row = "[''com,example)/ 20240722120756'', ''cdx-00001.gz'', ''188224'', ''178351'', ''2'']"
  let ?b2 = "\<lparr>found_urls = [found_eng_200], published = [], batch_counter = 0,
              batcher_docs_seen = 1, batcher_docs_filtered = 1, batcher_docs_sent = 0\<rparr>"
  have w: "warc_records example_env ''warc-d'' = [?rd] @ Inl DecodeError # [?ra]"
    by (simp add: example_env_def example_warc_def)
  have r: "for_each (process_record example_env ?d) [?rd]
             ((process_items example_env [?a] worker_init)\<lparr>bytes_downloaded :=
                bytes_downloaded (process_items example_env [?a] worker_init) + length ''warc-d''\<rparr>)
           = (None, ?stx)"
    by (simp add: worker_defs)
  have rows: "for_each (process_chunk example_env BATCH_SIZE) [] (batcher_init\<lparr>found_urls := []\<rparr>)
                = (None, batcher_init)"
    by (simp add: batcher_init_def)
  have s: "split_on CHR 0x0A chunk_broken = [line_eng_200] @ line_malformed # [line_eng_200, []]"
    by (simp add: lines_of_chunk_broken)
  have l: "for_each (process_line example_env BATCH_SIZE) [line_eng_200] batcher_init = (None, ?b2)"
    by (simp add: example_defs batcher_defs)
  have n: "line_malformed \<noteq> []" by (simp add: line_malformed_def)
  note scope = decode_error_scope [of example_env ?d "''warc-d''" "[?rd]" DecodeError "[?ra]" "[?a]"
         worker_init ?stx "[?c]" BATCH_SIZE "[]" batcher_init batcher_init ?row chunk_broken
         "[line_eng_200]" line_malformed "[line_eng_200, []]" ?b2 JSONDecodeError "[]"]
  have c: "try_item example_env ?d (process_items example_env [?a] worker_init)
             = (Some DecodeError, ?stx)
           \<and> process_items example_env ([?a] @ ?d # [?c]) worker_init
             = process_items example_env [?c] ?stx
           \<and> saved (process_items example_env ([?a] @ ?d # [?c]) worker_init)
             = saved worker_init @ concat (map (item_saves example_env) [?a])
                 @ item_saves example_env ?d @ concat (map (item_saves example_env) [?c])"
    by (rule scope [THEN conjunct1, THEN mp]) (intro conjI fetch_of_item_d w r)
  have p: "process_index example_env ([] @ ?row # []) BATCH_SIZE batcher_init
             = (Some JSONDecodeError, ?b2\<lparr>batcher_docs_seen := batcher_docs_seen ?b2 + 1\<rparr>)"
    by (rule scope [THEN conjunct2, THEN mp])
       (intro conjI rows fetch_chunk_broken s l n loads_line_malformed)
  have c1: "fst (try_item example_env ?d (process_items example_env [?a] worker_init))
              = Some DecodeError"
    by (simp only: c [THEN conjunct1] fst_conv)
  have docs: "saved worker_init @ concat (map (item_saves example_env) [?a])
                @ item_saves example_env ?d @ concat (map (item_saves example_env) [?c])
              = [doc_for ''a.warc.gz'' CHR ''a'', doc_for ''d.warc.gz'' CHR ''d'',
                 doc_for ''c.warc.gz'' CHR ''c'']"
    by (simp add: saves_of_item_a saves_of_item_d saves_of_item_c worker_init_def)
  have c3: "saved (process_items example_env ([?a] @ ?d # [?c]) worker_init)
              = [doc_for ''a.warc.gz'' CHR ''a'', doc_for ''d.warc.gz'' CHR ''d'',
                 doc_for ''c.warc.gz'' CHR ''c'']"
    by (simp only: c [THEN conjunct2, THEN conjunct2] docs)
  have e: "?b2\<lparr>batcher_docs_seen := batcher_docs_seen ?b2 + 1\<rparr>
             = \<lparr>found_urls = [found_eng_200], published = [], batch_counter = 0,
                batcher_docs_seen = 2, batcher_docs_filtered = 1, batcher_docs_sent = 0\<rparr>"
    by simp
  have p1: "process_index example_env ([] @ ?row # []) BATCH_SIZE batcher_init
             = (Some JSONDecodeError,
                \<lparr>found_urls = [found_eng_200], published = [], batch_counter = 0,
                 batcher_docs_seen = 2, batcher_docs_filtered = 1, batcher_docs_sent = 0\<rparr>)"
    by (simp only: p e)
  show ?thesis
    by (intro conjI fetch_of_item_d w c1 c3 s p1)
qed

end
